theory Spec2Isabelle
  imports Main "HOL-Library.Sublist"
begin

section \<open>Data model (client/src/types/chat.ts)\<close>

text \<open>
  The sender of a message is the union type \<^verbatim>\<open>"user" | "bot"\<close>.
\<close>

datatype Sender = User | Bot

text \<open>
  TypeScript types are erased when the program runs. A property read such as
  \<^verbatim>\<open>res.response\<close> yields \<^verbatim>\<open>undefined\<close> when the object has no such property,
  and that value is stored in a message as it is. Values are therefore either
  \<^verbatim>\<open>undefined\<close> or a string. A string is the list of its characters, with code
  points 0 to 255.
\<close>

datatype jsval = JSUndefined | JSString string

text \<open>
  \<^verbatim>\<open>interface ChatMessage { id; sender; text; timestamp }\<close>. The fields \<^verbatim>\<open>id\<close> and
  \<^verbatim>\<open>text\<close> carry a prime, since both names are taken in Isabelle.
\<close>

record ChatMessage =
  id' :: string
  sender :: Sender
  text' :: jsval
  timestamp :: string

text \<open>
  An object literal is the list of its properties in the order written;
  \<open>get_prop\<close> is the property read \<^verbatim>\<open>obj.k\<close>.
\<close>

type_synonym jsobj = "(string \<times> jsval) list"

definition get_prop :: "jsobj \<Rightarrow> string \<Rightarrow> jsval" where
  "get_prop obj k = (case map_of obj k of None \<Rightarrow> JSUndefined | Some v \<Rightarrow> v)"

text \<open>
  The declared interfaces \<^verbatim>\<open>ChatRequest { message: string }\<close> and
  \<^verbatim>\<open>ChatResponse { reply: string }\<close>, as the list of their field names.
\<close>

definition ChatRequest :: "string list" where
  "ChatRequest = [''message'']"

definition ChatResponse :: "string list" where
  "ChatResponse = [''reply'']"

section \<open>The transport function\<close>

text \<open>
  \<^verbatim>\<open>sendMessage\<close> is imported from \<^verbatim>\<open>@/lib/api\<close>. It takes the request object and
  returns a promise, which settles in one of two ways: it resolves with an
  object, or it is rejected. The functions below take the transport as a
  parameter of type \<open>jsobj \<Rightarrow> outcome\<close>, or take the outcome of one call.
\<close>

datatype outcome = Resolved jsobj | Rejected

section \<open>String.prototype.trim\<close>

text \<open>
  The white space and line terminator code points below 256: TAB, LF, VT, FF,
  CR, SPACE and NBSP.
\<close>

definition isWhiteSpace :: "char \<Rightarrow> bool" where
  "isWhiteSpace c = (of_char c \<in> {9, 10, 11, 12, 13, 32, 160 :: nat})"

definition trim :: "string \<Rightarrow> string" where
  "trim s = rev (dropWhile isWhiteSpace (rev (dropWhile isWhiteSpace s)))"

section \<open>The ChatWindow component\<close>

record ChatWindow_state =
  messages :: "ChatMessage list"
  input :: string
  isLoading :: bool

text \<open>
  The three \<^verbatim>\<open>useState\<close> initial values. \<open>u\<close> is the result of
  \<^verbatim>\<open>crypto.randomUUID()\<close> and \<open>t\<close> that of \<^verbatim>\<open>new Date().toISOString()\<close>.
\<close>

definition ChatWindow_init :: "string \<Rightarrow> string \<Rightarrow> ChatWindow_state" where
  "ChatWindow_init u t =
     \<lparr>messages = [\<lparr>id' = u, sender = Bot,
                    text' = JSString ''Hi there! How can I help you?'',
                    timestamp = t\<rparr>],
      input = [],
      isLoading = False\<rparr>"

text \<open>
  \<^verbatim>\<open>handleSubmit\<close> up to its \<^verbatim>\<open>await\<close>: the guard, the three state updates and
  the call of \<^verbatim>\<open>sendMessage\<close>. The second component is the request object of
  the call issued, if any.
\<close>

definition handleSubmit_sync ::
  "string \<Rightarrow> string \<Rightarrow> ChatWindow_state \<Rightarrow> ChatWindow_state \<times> jsobj option" where
  "handleSubmit_sync u t s =
     (if trim (input s) = [] then (s, None)
      else
        let userMessage = \<lparr>id' = u, sender = User, text' = JSString (input s), timestamp = t\<rparr>
        in (s\<lparr>messages := messages s @ [userMessage], input := [], isLoading := True\<rparr>,
            Some [(''question'', JSString (input s))]))"

text \<open>
  How a \<^verbatim>\<open>handleSubmit\<close> promise ends: the \<^verbatim>\<open>catch\<close> clause has no \<^verbatim>\<open>throw\<close>, so
  the function fulfils on both branches.
\<close>

datatype completion = Fulfilled | Thrown

text \<open>
  \<^verbatim>\<open>handleSubmit\<close> after the \<^verbatim>\<open>await\<close>: the rest of the \<^verbatim>\<open>try\<close> block when the
  promise resolved with \<open>res\<close>, the \<^verbatim>\<open>catch\<close> block when it rejected, then
  \<^verbatim>\<open>finally\<close>.
\<close>

definition handleSubmit_resume ::
  "string \<Rightarrow> string \<Rightarrow> outcome \<Rightarrow> ChatWindow_state \<Rightarrow> ChatWindow_state \<times> completion" where
  "handleSubmit_resume u t out s =
     (case out of
        Resolved res \<Rightarrow>
          let botMessage = \<lparr>id' = u, sender = Bot, text' = get_prop res ''response'', timestamp = t\<rparr>
          in (s\<lparr>messages := messages s @ [botMessage], isLoading := False\<rparr>, Fulfilled)
      | Rejected \<Rightarrow>
          let errorMessage = \<lparr>id' = u, sender = Bot,
                              text' = JSString ''Something went wrong. Please try again.'',
                              timestamp = t\<rparr>
          in (s\<lparr>messages := messages s @ [errorMessage], isLoading := False\<rparr>, Fulfilled))"





text \<open>
  One whole run of \<^verbatim>\<open>handleSubmit\<close> against a transport \<open>sendMessage\<close>, with
  nothing else happening while the call is awaited.
\<close>

definition handleSubmit ::
  "(jsobj \<Rightarrow> outcome) \<Rightarrow> string \<Rightarrow> string \<Rightarrow> string \<Rightarrow> string \<Rightarrow>
   ChatWindow_state \<Rightarrow> ChatWindow_state \<times> completion" where
  "handleSubmit sendMessage u1 t1 u2 t2 s =
     (case handleSubmit_sync u1 t1 s of
        (s', None) \<Rightarrow> (s', Fulfilled)
      | (s', Some req) \<Rightarrow> handleSubmit_resume u2 t2 (sendMessage req) s')"

text \<open>The \<^verbatim>\<open>disabled\<close> attributes of the text input and of the submit button.\<close>

definition input_disabled :: "ChatWindow_state \<Rightarrow> bool" where
  "input_disabled s = isLoading s"

definition submit_disabled :: "ChatWindow_state \<Rightarrow> bool" where
  "submit_disabled s = isLoading s"

text \<open>
  The component in a browser. \<open>inflight\<close> holds the request objects of the
  \<^verbatim>\<open>sendMessage\<close> calls whose promise has not settled yet.
\<close>

record ChatWindow_run =
  ui :: ChatWindow_state
  inflight :: "jsobj list"

definition ChatWindow_start :: "string \<Rightarrow> string \<Rightarrow> ChatWindow_run" where
  "ChatWindow_start u t = \<lparr>ui = ChatWindow_init u t, inflight = []\<rparr>"

text \<open>
  What can happen to a mounted component: \<open>Change v\<close> is the input's
  \<^verbatim>\<open>onChange\<close> with the new value \<open>v\<close>; \<open>Submit u t\<close> is the form's \<^verbatim>\<open>onSubmit\<close>;
  \<open>Settle i out u t\<close> is the promise of the \<open>i\<close>-th call in flight settling with
  \<open>out\<close>, which resumes the \<^verbatim>\<open>handleSubmit\<close> that awaits it. \<open>u\<close> and \<open>t\<close> are the
  identifier and the time stamp drawn by the handler.
\<close>

datatype event = Change string | Submit string string | Settle nat outcome string string

text \<open>
  \<open>fire\<close> is \<open>None\<close> for an event that cannot happen: a disabled input takes no
  typing, a form whose button and input are both disabled cannot be submitted
  by the user, and only a call in flight can settle.
\<close>

fun fire :: "event \<Rightarrow> ChatWindow_run \<Rightarrow> ChatWindow_run option" where
  "fire (Change v) r =
     (if input_disabled (ui r) then None
      else Some (r\<lparr>ui := (ui r)\<lparr>input := v\<rparr>\<rparr>))"
| "fire (Submit u t) r =
     (if submit_disabled (ui r) \<and> input_disabled (ui r) then None
      else
        (case handleSubmit_sync u t (ui r) of
           (s', None) \<Rightarrow> Some \<lparr>ui = s', inflight = inflight r\<rparr>
         | (s', Some req) \<Rightarrow> Some \<lparr>ui = s', inflight = inflight r @ [req]\<rparr>))"
| "fire (Settle i out u t) r =
     (if i < length (inflight r)
      then Some \<lparr>ui = fst (handleSubmit_resume u t out (ui r)),
                 inflight = take i (inflight r) @ drop (Suc i) (inflight r)\<rparr>
      else None)"

fun fires :: "event list \<Rightarrow> ChatWindow_run \<Rightarrow> ChatWindow_run option" where
  "fires [] r = Some r"
| "fires (e # es) r = (case fire e r of None \<Rightarrow> None | Some r' \<Rightarrow> fires es r')"

datatype phase = Idle | Sending

definition phase_of :: "ChatWindow_run \<Rightarrow> phase" where
  "phase_of r = (if isLoading (ui r) then Sending else Idle)"

text \<open>
  The loading flag is set exactly when a call is in flight, and at most one
  call is in flight.
\<close>

definition loading_inv :: "ChatWindow_run \<Rightarrow> bool" where
  "loading_inv r = ((isLoading (ui r) \<longleftrightarrow> inflight r \<noteq> []) \<and> length (inflight r) \<le> 1)"

section \<open>The useChat hook (client/src/hooks/useChat.ts)\<close>

text \<open>
  The hook's own state is the message list. \<^verbatim>\<open>useMutation\<close> of
  \<^verbatim>\<open>@tanstack/react-query\<close> keeps the status of the mutation it observes, and
  \<^verbatim>\<open>isPending\<close> is true exactly in status pending.
\<close>

datatype MutationStatus = StatusIdle | StatusPending | StatusSuccess | StatusError

record useChat_state =
  hook_messages :: "ChatMessage list"
  status :: MutationStatus

definition useChat_init :: useChat_state where
  "useChat_init = \<lparr>hook_messages = [], status = StatusIdle\<rparr>"

definition isPending :: "useChat_state \<Rightarrow> bool" where
  "isPending s = (status s = StatusPending)"

text \<open>\<open>u\<close> is the result of \<^verbatim>\<open>nanoid()\<close>, \<open>t\<close> the time stamp.\<close>

definition onSuccess :: "string \<Rightarrow> string \<Rightarrow> jsobj \<Rightarrow> useChat_state \<Rightarrow> useChat_state" where
  "onSuccess u t data s =
     s\<lparr>hook_messages := hook_messages s @
         [\<lparr>id' = u, sender = Bot, text' = get_prop data ''reply'', timestamp = t\<rparr>]\<rparr>"

definition onError :: "string \<Rightarrow> string \<Rightarrow> useChat_state \<Rightarrow> useChat_state" where
  "onError u t s =
     s\<lparr>hook_messages := hook_messages s @
         [\<lparr>id' = u, sender = Bot, text' = JSString ''Error contacting server.'',
           timestamp = t\<rparr>]\<rparr>"

text \<open>
  \<^verbatim>\<open>mutation.mutate(variables)\<close>: the hook now observes a new mutation, in status
  pending, and \<^verbatim>\<open>mutationFn\<close> is called once with the variables.
\<close>

definition mutate :: "jsobj \<Rightarrow> useChat_state \<Rightarrow> useChat_state \<times> jsobj" where
  "mutate variables s = (s\<lparr>status := StatusPending\<rparr>, variables)"

definition send :: "string \<Rightarrow> string \<Rightarrow> string \<Rightarrow> useChat_state \<Rightarrow> useChat_state \<times> jsobj" where
  "send u t txt s =
     mutate [(''message'', JSString txt)]
       (s\<lparr>hook_messages := hook_messages s @
           [\<lparr>id' = u, sender = User, text' = JSString txt, timestamp = t\<rparr>]\<rparr>)"

text \<open>
  A mutation's promise settling. The callbacks given to \<^verbatim>\<open>useMutation\<close> run for
  every mutation; the status changes only when the mutation is the one the
  hook observes (\<open>observed\<close>), that is the one of the latest \<^verbatim>\<open>mutate\<close>.
  \<^verbatim>\<open>mutate\<close> does not pass the rejection on to its caller.
\<close>

definition mutation_settled ::
  "bool \<Rightarrow> string \<Rightarrow> string \<Rightarrow> outcome \<Rightarrow> useChat_state \<Rightarrow> useChat_state \<times> completion" where
  "mutation_settled observed u t out s =
     (case out of
        Resolved data \<Rightarrow>
          (let s' = onSuccess u t data s
           in (if observed then s'\<lparr>status := StatusSuccess\<rparr> else s', Fulfilled))
      | Rejected \<Rightarrow>
          (let s' = onError u t s
           in (if observed then s'\<lparr>status := StatusError\<rparr> else s', Fulfilled)))"

text \<open>
  One whole \<^verbatim>\<open>send\<close> against a transport \<open>sendMessage\<close>, with no other \<^verbatim>\<open>send\<close>
  before the call settles.
\<close>

definition send_complete ::
  "(jsobj \<Rightarrow> outcome) \<Rightarrow> string \<Rightarrow> string \<Rightarrow> string \<Rightarrow> string \<Rightarrow> string \<Rightarrow>
   useChat_state \<Rightarrow> useChat_state \<times> completion" where
  "send_complete sendMessage u1 t1 u2 t2 txt s =
     (case send u1 t1 txt s of
        (s', req) \<Rightarrow> mutation_settled True u2 t2 (sendMessage req) s')"

text \<open>
  The hook in use. \<open>calls\<close> holds the calls in flight with the number of their
  mutation, \<open>issued\<close> counts the mutations so far. Nothing in the hook keeps a
  caller from a second \<^verbatim>\<open>send\<close> while a call is in flight.
\<close>

record useChat_run =
  hook :: useChat_state
  calls :: "(nat \<times> jsobj) list"
  issued :: nat

definition useChat_start :: useChat_run where
  "useChat_start = \<lparr>hook = useChat_init, calls = [], issued = 0\<rparr>"

datatype hook_event = HSend string string string | HSettle nat outcome string string

fun hfire :: "hook_event \<Rightarrow> useChat_run \<Rightarrow> useChat_run option" where
  "hfire (HSend txt u t) r =
     (case send u t txt (hook r) of
        (s', req) \<Rightarrow>
          Some \<lparr>hook = s', calls = calls r @ [(issued r, req)], issued = Suc (issued r)\<rparr>)"
| "hfire (HSettle i out u t) r =
     (if i < length (calls r)
      then Some \<lparr>hook = fst (mutation_settled (Suc (fst (calls r ! i)) = issued r) u t out (hook r)),
                 calls = take i (calls r) @ drop (Suc i) (calls r),
                 issued = issued r\<rparr>
      else None)"

fun hfires :: "hook_event list \<Rightarrow> useChat_run \<Rightarrow> useChat_run option" where
  "hfires [] r = Some r"
| "hfires (e # es) r = (case hfire e r of None \<Rightarrow> None | Some r' \<Rightarrow> hfires es r')"



section \<open>Helper lemmas\<close>

lemma dropWhile_all_self: "(\<forall>x \<in> set (dropWhile P xs). P x) \<longleftrightarrow> (\<forall>x \<in> set xs. P x)"
  by (induction xs) auto

lemma trim_empty_iff: "trim s = [] \<longleftrightarrow> (\<forall>c \<in> set s. isWhiteSpace c)"
  by (simp add: trim_def dropWhile_all_self)

lemma handleSubmit_sync_blank: "trim (input s) = [] \<Longrightarrow> handleSubmit_sync u t s = (s, None)"
  by (simp add: handleSubmit_sync_def)

lemma handleSubmit_sync_nonblank:
  "trim (input s) \<noteq> [] \<Longrightarrow>
   handleSubmit_sync u t s =
     (s\<lparr>messages := messages s @ [\<lparr>id' = u, sender = User, text' = JSString (input s), timestamp = t\<rparr>],
        input := [], isLoading := True\<rparr>,
      Some [(''question'', JSString (input s))])"
  by (simp add: handleSubmit_sync_def)

lemma isLoading_resume: "isLoading (fst (handleSubmit_resume u t out s)) = False"
  by (cases out) (simp_all add: handleSubmit_resume_def)

lemma loading_inv_start: "loading_inv (ChatWindow_start u t)"
  by (simp add: loading_inv_def ChatWindow_start_def ChatWindow_init_def)

lemma loading_inv_fire:
  assumes "loading_inv r" and "fire e r = Some r'"
  shows "loading_inv r'"
proof (cases e)
  case (Change v)
  with assms show ?thesis
    by (auto simp: loading_inv_def input_disabled_def split: if_splits)
next
  case (Submit u t)
  show ?thesis
  proof (cases "trim (input (ui r)) = []")
    case True
    with assms Submit show ?thesis
      by (auto simp: loading_inv_def handleSubmit_sync_blank split: if_splits)
  next
    case False
    with assms Submit show ?thesis
      by (auto simp: loading_inv_def handleSubmit_sync_nonblank input_disabled_def
          submit_disabled_def split: if_splits)
  qed
next
  case (Settle i out u t)
  with assms have "i < length (inflight r)"
    by (auto split: if_splits)
  with assms have "length (inflight r) = 1" and "i = 0"
    by (auto simp: loading_inv_def)
  with assms Settle show ?thesis
    by (auto simp: loading_inv_def isLoading_resume split: if_splits)
qed

lemma loading_inv_fires: "loading_inv r \<Longrightarrow> fires es r = Some r' \<Longrightarrow> loading_inv r'"
proof (induction es arbitrary: r)
  case Nil
  then show ?case by simp
next
  case (Cons e es)
  then show ?case
    by (auto split: option.splits dest: loading_inv_fire)
qed

lemma prefix_fire: "fire e r = Some r' \<Longrightarrow> prefix (messages (ui r)) (messages (ui r'))"
proof (cases e)
  case (Submit u t)
  assume "fire e r = Some r'"
  with Submit show ?thesis
    by (cases "trim (input (ui r)) = []")
       (auto simp: handleSubmit_sync_blank handleSubmit_sync_nonblank split: if_splits)
next
  case (Settle i out u t)
  assume "fire e r = Some r'"
  with Settle show ?thesis
    by (cases out) (auto simp: handleSubmit_resume_def split: if_splits)
qed (auto split: if_splits)

lemma prefix_fires: "fires es r = Some r' \<Longrightarrow> prefix (messages (ui r)) (messages (ui r'))"
proof (induction es arbitrary: r)
  case Nil
  then show ?case by simp
next
  case (Cons e es)
  from Cons.prems obtain r1 where 1: "fire e r = Some r1" and 2: "fires es r1 = Some r'"
    by (auto split: option.splits)
  from prefix_fire [OF 1] Cons.IH [OF 2] show ?case
    by (rule prefix_order.trans)
qed

lemma prefix_hfire: "hfire e r = Some r' \<Longrightarrow> prefix (hook_messages (hook r)) (hook_messages (hook r'))"
proof (cases e)
  case (HSend m u t)
  assume "hfire e r = Some r'"
  with HSend show ?thesis
    by (auto simp: send_def mutate_def)
next
  case (HSettle i out u t)
  assume "hfire e r = Some r'"
  with HSettle show ?thesis
    by (cases out) (auto simp: mutation_settled_def onSuccess_def onError_def Let_def split: if_splits)
qed

lemma prefix_hfires: "hfires es r = Some r' \<Longrightarrow> prefix (hook_messages (hook r)) (hook_messages (hook r'))"
proof (induction es arbitrary: r)
  case Nil
  then show ?case by simp
next
  case (Cons e es)
  from Cons.prems obtain r1 where 1: "hfire e r = Some r1" and 2: "hfires es r1 = Some r'"
    by (auto split: option.splits)
  from prefix_hfire [OF 1] Cons.IH [OF 2] show ?case
    by (rule prefix_order.trans)
qed

lemma prefix_nth: "prefix xs ys \<Longrightarrow> i < length xs \<Longrightarrow> ys ! i = xs ! i"
  by (auto simp: prefix_def nth_append)






section \<open>The claims\<close>

text \<open>
  Claim C10. Before any user interaction the message list of ChatWindow holds
  exactly one message, the greeting of the bot with the text
  "Hi there! How can I help you?", and the message list of useChat is empty.
\<close>

theorem initial_message_lists:
  "messages (ChatWindow_init u t) =
     [\<lparr>id' = u, sender = Bot, text' = JSString ''Hi there! How can I help you?'', timestamp = t\<rparr>]
   \<and> length (messages (ChatWindow_init u t)) = 1
   \<and> ui (ChatWindow_start u t) = ChatWindow_init u t
   \<and> hook_messages useChat_init = []
   \<and> hook useChat_start = useChat_init"
  by (simp add: ChatWindow_init_def ChatWindow_start_def useChat_init_def useChat_start_def)

text \<open>
  Claim C1. A completed submission of a non-blank input grows the message list
  by exactly two messages: the user's message, then one message of the bot. Its
  text is the reply read from the response when the call resolved, and the fixed
  fallback text when it was rejected. In ChatWindow the reply is read from the
  property \<^verbatim>\<open>response\<close>, in useChat from \<^verbatim>\<open>reply\<close>.
\<close>

theorem completed_submission_two_messages:
  "(trim (input s) \<noteq> [] \<longrightarrow>
      messages (fst (handleSubmit sendMessage u1 t1 u2 t2 s)) =
        messages s @
          [\<lparr>id' = u1, sender = User, text' = JSString (input s), timestamp = t1\<rparr>,
           \<lparr>id' = u2, sender = Bot,
             text' = (case sendMessage [(''question'', JSString (input s))] of
                        Resolved res \<Rightarrow> get_prop res ''response''
                      | Rejected \<Rightarrow> JSString ''Something went wrong. Please try again.''),
             timestamp = t2\<rparr>]
      \<and> length (messages (fst (handleSubmit sendMessage u1 t1 u2 t2 s))) = length (messages s) + 2)
   \<and> hook_messages (fst (send_complete sendMessage u1 t1 u2 t2 m h)) =
        hook_messages h @
          [\<lparr>id' = u1, sender = User, text' = JSString m, timestamp = t1\<rparr>,
           \<lparr>id' = u2, sender = Bot,
             text' = (case sendMessage [(''message'', JSString m)] of
                        Resolved data \<Rightarrow> get_prop data ''reply''
                      | Rejected \<Rightarrow> JSString ''Error contacting server.''),
             timestamp = t2\<rparr>]
   \<and> length (hook_messages (fst (send_complete sendMessage u1 t1 u2 t2 m h))) =
        length (hook_messages h) + 2"
proof -
  have window: "messages (fst (handleSubmit sendMessage u1 t1 u2 t2 s)) =
        messages s @
          [\<lparr>id' = u1, sender = User, text' = JSString (input s), timestamp = t1\<rparr>,
           \<lparr>id' = u2, sender = Bot,
             text' = (case sendMessage [(''question'', JSString (input s))] of
                        Resolved res \<Rightarrow> get_prop res ''response''
                      | Rejected \<Rightarrow> JSString ''Something went wrong. Please try again.''),
             timestamp = t2\<rparr>]" if "trim (input s) \<noteq> []"
    using that
    by (cases "sendMessage [(''question'', JSString (input s))]")
       (simp_all add: handleSubmit_def handleSubmit_sync_nonblank handleSubmit_resume_def)
  have hook: "hook_messages (fst (send_complete sendMessage u1 t1 u2 t2 m h)) =
        hook_messages h @
          [\<lparr>id' = u1, sender = User, text' = JSString m, timestamp = t1\<rparr>,
           \<lparr>id' = u2, sender = Bot,
             text' = (case sendMessage [(''message'', JSString m)] of
                        Resolved data \<Rightarrow> get_prop data ''reply''
                      | Rejected \<Rightarrow> JSString ''Error contacting server.''),
             timestamp = t2\<rparr>]"
    by (cases "sendMessage [(''message'', JSString m)]")
       (simp_all add: send_complete_def send_def mutate_def mutation_settled_def
          onSuccess_def onError_def)
  from window hook show ?thesis by simp
qed

theorem completed_submission_two_messages_witness:
  "trim (input ((ChatWindow_init ''u0'' ''t0'')\<lparr>input := ''Hello''\<rparr>)) \<noteq> []
   \<and> messages (fst (handleSubmit (\<lambda>req. Resolved [(''response'', JSString ''Hi!'')])
        ''u1'' ''t1'' ''u2'' ''t2'' ((ChatWindow_init ''u0'' ''t0'')\<lparr>input := ''Hello''\<rparr>))) =
      [\<lparr>id' = ''u0'', sender = Bot, text' = JSString ''Hi there! How can I help you?'',
         timestamp = ''t0''\<rparr>,
       \<lparr>id' = ''u1'', sender = User, text' = JSString ''Hello'', timestamp = ''t1''\<rparr>,
       \<lparr>id' = ''u2'', sender = Bot, text' = JSString ''Hi!'', timestamp = ''t2''\<rparr>]
   \<and> hook_messages (fst (send_complete (\<lambda>req. Rejected) ''u1'' ''t1'' ''u2'' ''t2'' ''Hello''
        useChat_init)) =
      [\<lparr>id' = ''u1'', sender = User, text' = JSString ''Hello'', timestamp = ''t1''\<rparr>,
       \<lparr>id' = ''u2'', sender = Bot, text' = JSString ''Error contacting server.'',
         timestamp = ''t2''\<rparr>]"
proof -
  have h: "trim (input ((ChatWindow_init ''u0'' ''t0'')\<lparr>input := ''Hello''\<rparr>)) \<noteq> []"
    by (simp add: trim_def isWhiteSpace_def)
  from h
    completed_submission_two_messages [of "(ChatWindow_init ''u0'' ''t0'')\<lparr>input := ''Hello''\<rparr>"
      "\<lambda>req. Resolved [(''response'', JSString ''Hi!'')]" "''u1''" "''t1''" "''u2''" "''t2''"
      "''Hello''" useChat_init]
    completed_submission_two_messages [of "(ChatWindow_init ''u0'' ''t0'')\<lparr>input := ''Hello''\<rparr>"
      "\<lambda>req. Rejected" "''u1''" "''t1''" "''u2''" "''t2''"
      "''Hello''" useChat_init]
  show ?thesis
    by (simp add: ChatWindow_init_def useChat_init_def get_prop_def)
qed







text \<open>
  Claim C5. A submit with a non-blank input appends exactly one message of the
  user carrying the submitted text, clears the input field, sets the loading
  flag and issues exactly one call, all before the call settles. \<^verbatim>\<open>send\<close> of
  useChat, which has no input field, appends the user's message, is pending and
  issues one call.
\<close>

theorem submit_nonblank:
  "(trim (input s) \<noteq> [] \<longrightarrow>
      messages (fst (handleSubmit_sync u t s)) =
        messages s @ [\<lparr>id' = u, sender = User, text' = JSString (input s), timestamp = t\<rparr>]
      \<and> input (fst (handleSubmit_sync u t s)) = []
      \<and> isLoading (fst (handleSubmit_sync u t s)) = True
      \<and> snd (handleSubmit_sync u t s) = Some [(''question'', JSString (input s))])
   \<and> (trim (input (ui r)) \<noteq> [] \<and> \<not> isLoading (ui r) \<longrightarrow>
      fire (Submit u t) r =
        Some \<lparr>ui = (ui r)\<lparr>messages := messages (ui r) @
                   [\<lparr>id' = u, sender = User, text' = JSString (input (ui r)), timestamp = t\<rparr>],
                 input := [], isLoading := True\<rparr>,
              inflight = inflight r @ [[(''question'', JSString (input (ui r)))]]\<rparr>)
   \<and> hook_messages (fst (send u t m h)) =
        hook_messages h @ [\<lparr>id' = u, sender = User, text' = JSString m, timestamp = t\<rparr>]
   \<and> isPending (fst (send u t m h)) = True
   \<and> snd (send u t m h) = [(''message'', JSString m)]
   \<and> hfire (HSend m u t) q =
        Some \<lparr>hook = fst (send u t m (hook q)),
              calls = calls q @ [(issued q, [(''message'', JSString m)])],
              issued = Suc (issued q)\<rparr>"
  by (simp add: handleSubmit_sync_nonblank submit_disabled_def input_disabled_def
      send_def mutate_def isPending_def)

theorem submit_nonblank_witness:
  "trim (input ((ChatWindow_init ''u0'' ''t0'')\<lparr>input := ''Hello''\<rparr>)) \<noteq> []
   \<and> handleSubmit_sync ''u1'' ''t1'' ((ChatWindow_init ''u0'' ''t0'')\<lparr>input := ''Hello''\<rparr>) =
       (\<lparr>messages =
            [\<lparr>id' = ''u0'', sender = Bot, text' = JSString ''Hi there! How can I help you?'',
               timestamp = ''t0''\<rparr>,
             \<lparr>id' = ''u1'', sender = User, text' = JSString ''Hello'', timestamp = ''t1''\<rparr>],
          input = [], isLoading = True\<rparr>,
        Some [(''question'', JSString ''Hello'')])
   \<and> \<not> isLoading (ui \<lparr>ui = (ChatWindow_init ''u0'' ''t0'')\<lparr>input := ''Hello''\<rparr>, inflight = []\<rparr>)
   \<and> fire (Submit ''u1'' ''t1'')
         \<lparr>ui = (ChatWindow_init ''u0'' ''t0'')\<lparr>input := ''Hello''\<rparr>, inflight = []\<rparr> =
       Some \<lparr>ui = \<lparr>messages =
                 [\<lparr>id' = ''u0'', sender = Bot, text' = JSString ''Hi there! How can I help you?'',
                    timestamp = ''t0''\<rparr>,
                  \<lparr>id' = ''u1'', sender = User, text' = JSString ''Hello'', timestamp = ''t1''\<rparr>],
               input = [], isLoading = True\<rparr>,
             inflight = [[(''question'', JSString ''Hello'')]]\<rparr>"
proof -
  have h: "trim (input ((ChatWindow_init ''u0'' ''t0'')\<lparr>input := ''Hello''\<rparr>)) \<noteq> []"
    by (simp add: trim_def isWhiteSpace_def)
  have l: "\<not> isLoading (ui \<lparr>ui = (ChatWindow_init ''u0'' ''t0'')\<lparr>input := ''Hello''\<rparr>,
      inflight = []\<rparr>)"
    by (simp add: ChatWindow_init_def)
  from h l
    submit_nonblank [of "(ChatWindow_init ''u0'' ''t0'')\<lparr>input := ''Hello''\<rparr>" "''u1''" "''t1''"
      "\<lparr>ui = (ChatWindow_init ''u0'' ''t0'')\<lparr>input := ''Hello''\<rparr>, inflight = []\<rparr>"]
  show ?thesis
    by (auto simp: ChatWindow_init_def prod_eq_iff)
qed

text \<open>
  Claim C4, as amended. Submitting an empty or white-space-only input through
  \<^verbatim>\<open>handleSubmit\<close> of ChatWindow leaves the state, and so the message list,
  unchanged and issues no call.
\<close>

theorem blank_submit_ignored:
  "((\<forall>c \<in> set (input s). isWhiteSpace c) \<longrightarrow>
      handleSubmit_sync u t s = (s, None)
      \<and> handleSubmit sendMessage u t u2 t2 s = (s, Fulfilled))
   \<and> ((\<forall>c \<in> set (input (ui r)). isWhiteSpace c) \<and> \<not> isLoading (ui r) \<longrightarrow>
      fire (Submit u t) r = Some r)"
  by (auto simp: trim_empty_iff [symmetric] handleSubmit_sync_blank handleSubmit_def
      submit_disabled_def input_disabled_def)

theorem blank_submit_ignored_witness:
  "isWhiteSpace CHR '' ''
   \<and> handleSubmit_sync ''u1'' ''t1'' ((ChatWindow_init ''u0'' ''t0'')\<lparr>input := ''   ''\<rparr>) =
       ((ChatWindow_init ''u0'' ''t0'')\<lparr>input := ''   ''\<rparr>, None)
   \<and> fire (Submit ''u1'' ''t1'') \<lparr>ui = (ChatWindow_init ''u0'' ''t0'')\<lparr>input := ''   ''\<rparr>, inflight = []\<rparr>
       = Some \<lparr>ui = (ChatWindow_init ''u0'' ''t0'')\<lparr>input := ''   ''\<rparr>, inflight = []\<rparr>"
proof -
  have w: "isWhiteSpace CHR '' ''"
    by (simp add: isWhiteSpace_def)
  then have h: "\<forall>c \<in> set (input ((ChatWindow_init ''u0'' ''t0'')\<lparr>input := ''   ''\<rparr>)). isWhiteSpace c"
    by simp
  have l: "\<not> isLoading ((ChatWindow_init ''u0'' ''t0'')\<lparr>input := ''   ''\<rparr>)"
    by (simp add: ChatWindow_init_def)
  from blank_submit_ignored [of "(ChatWindow_init ''u0'' ''t0'')\<lparr>input := ''   ''\<rparr>"
      "''u1''" "''t1''" "\<lambda>req. Rejected" "''u2''" "''t2''"
      "\<lparr>ui = (ChatWindow_init ''u0'' ''t0'')\<lparr>input := ''   ''\<rparr>, inflight = []\<rparr>"] h l w
  show ?thesis by simp
qed

text \<open>
  Claim C4 as stated, for every entry point, fails at \<^verbatim>\<open>send\<close> of useChat, which
  has no guard: on three spaces it appends a message of the user and issues a
  call.
\<close>

theorem send_blank_counterexample:
  "trim ''   '' = []
   \<and> send ''u1'' ''t1'' ''   '' useChat_init =
       (\<lparr>hook_messages = [\<lparr>id' = ''u1'', sender = User, text' = JSString ''   '',
                             timestamp = ''t1''\<rparr>],
          status = StatusPending\<rparr>,
        [(''message'', JSString ''   '')])
   \<and> hook_messages (fst (send ''u1'' ''t1'' ''   '' useChat_init)) \<noteq> hook_messages useChat_init"
  by (simp add: trim_def isWhiteSpace_def send_def mutate_def useChat_init_def)

text \<open>
  Claim C2, as amended. The call site in ChatWindow writes the request with the
  field \<^verbatim>\<open>question\<close> and reads the field \<^verbatim>\<open>response\<close> of the response, neither of
  which the declared types have, so a response with exactly the declared
  fields gives an undefined text there. The call site in useChat writes
  \<^verbatim>\<open>message\<close> and reads \<^verbatim>\<open>reply\<close>, as the types declare.
\<close>

theorem call_site_fields:
  "(trim (input s) \<noteq> [] \<longrightarrow>
      snd (handleSubmit_sync u t s) = Some [(''question'', JSString (input s))])
   \<and> map fst [(''question'', JSString (input s))] \<noteq> ChatRequest
   \<and> text' (last (messages (fst (handleSubmit_resume u t (Resolved res) s)))) =
       get_prop res ''response''
   \<and> ''response'' \<notin> set ChatResponse
   \<and> (map fst res = ChatResponse \<longrightarrow>
        text' (last (messages (fst (handleSubmit_resume u t (Resolved res) s)))) = JSUndefined)
   \<and> snd (send u t m h) = [(''message'', JSString m)]
   \<and> map fst (snd (send u t m h)) = ChatRequest
   \<and> text' (last (hook_messages (onSuccess u t data h))) = get_prop data ''reply''
   \<and> ''reply'' \<in> set ChatResponse"
proof -
  have "get_prop res ''response'' = JSUndefined" if "map fst res = ChatResponse"
    using that by (auto simp: ChatResponse_def get_prop_def map_eq_Cons_conv)
  then show ?thesis
    by (simp add: handleSubmit_sync_nonblank handleSubmit_resume_def ChatRequest_def
        ChatResponse_def send_def mutate_def onSuccess_def)
qed

theorem call_site_fields_witness:
  "trim (input ((ChatWindow_init ''u0'' ''t0'')\<lparr>input := ''Hello''\<rparr>)) \<noteq> []
   \<and> snd (handleSubmit_sync ''u1'' ''t1'' ((ChatWindow_init ''u0'' ''t0'')\<lparr>input := ''Hello''\<rparr>)) =
       Some [(''question'', JSString ''Hello'')]
   \<and> map fst [(''reply'', JSString ''Hi!'')] = ChatResponse
   \<and> text' (last (messages (fst (handleSubmit_resume ''u1'' ''t1''
        (Resolved [(''reply'', JSString ''Hi!'')])
        ((ChatWindow_init ''u0'' ''t0'')\<lparr>input := ''Hello''\<rparr>))))) = JSUndefined"
proof -
  have h: "trim (input ((ChatWindow_init ''u0'' ''t0'')\<lparr>input := ''Hello''\<rparr>)) \<noteq> []"
    by (simp add: trim_def isWhiteSpace_def)
  have k: "map fst [(''reply'', JSString ''Hi!'')] = ChatResponse"
    by (simp add: ChatResponse_def)
  from h k call_site_fields [of "(ChatWindow_init ''u0'' ''t0'')\<lparr>input := ''Hello''\<rparr>"
      "''u1''" "''t1''" "[(''reply'', JSString ''Hi!'')]" "''Hello''" useChat_init
      "[(''reply'', JSString ''Hi!'')]"]
  show ?thesis by (simp add: get_prop_def)
qed

text \<open>
  Claim C2 as stated, for every call site, fails at useChat: the request of
  \<^verbatim>\<open>send\<close> has exactly the declared field, and the text is read from the
  declared field \<^verbatim>\<open>reply\<close>, not from \<^verbatim>\<open>response\<close>.
\<close>

theorem useChat_call_site_counterexample:
  "map fst (snd (send ''u1'' ''t1'' ''Hello'' useChat_init)) = ChatRequest
   \<and> map fst [(''reply'', JSString ''Hi!'')] = ChatResponse
   \<and> text' (last (hook_messages (onSuccess ''u2'' ''t2'' [(''reply'', JSString ''Hi!'')]
        (fst (send ''u1'' ''t1'' ''Hello'' useChat_init))))) = JSString ''Hi!''
   \<and> text' (last (hook_messages (onSuccess ''u2'' ''t2'' [(''response'', JSString ''Hi!'')]
        (fst (send ''u1'' ''t1'' ''Hello'' useChat_init))))) = JSUndefined"
  by (simp add: send_def mutate_def onSuccess_def useChat_init_def ChatRequest_def
      ChatResponse_def get_prop_def)

text \<open>
  Claim C7. The loading flag follows Idle, Sending, Idle. In every state the
  mounted component can reach, the flag is true exactly when one call is in
  flight and false exactly when none is. A submit happens only in Idle and
  leads to Sending exactly when the input is not blank; a call settling, with
  either outcome, happens only in Sending and leads to Idle; typing happens
  only in Idle and stays there.
\<close>

theorem loading_state_machine:
  assumes "fires es (ChatWindow_start u0 t0) = Some r"
  shows "(isLoading (ui r) \<longleftrightarrow> length (inflight r) = 1)
       \<and> (\<not> isLoading (ui r) \<longleftrightarrow> inflight r = [])
       \<and> (fire e r = Some r' \<longrightarrow>
            (case e of
               Change v \<Rightarrow> phase_of r = Idle \<and> phase_of r' = Idle
             | Submit u t \<Rightarrow>
                 phase_of r = Idle
                 \<and> phase_of r' = (if trim (input (ui r)) = [] then Idle else Sending)
             | Settle i out u t \<Rightarrow> phase_of r = Sending \<and> phase_of r' = Idle))"
proof -
  from assms have inv: "loading_inv r"
    by (rule loading_inv_fires [OF loading_inv_start])
  then have flag: "isLoading (ui r) \<longleftrightarrow> length (inflight r) = 1"
    and idle: "\<not> isLoading (ui r) \<longleftrightarrow> inflight r = []"
    by (auto simp: loading_inv_def le_Suc_eq)
  have step: "case e of
               Change v \<Rightarrow> phase_of r = Idle \<and> phase_of r' = Idle
             | Submit u t \<Rightarrow>
                 phase_of r = Idle
                 \<and> phase_of r' = (if trim (input (ui r)) = [] then Idle else Sending)
             | Settle i out u t \<Rightarrow> phase_of r = Sending \<and> phase_of r' = Idle"
    if f: "fire e r = Some r'"
  proof (cases e)
    case (Change v)
    with f show ?thesis
      by (auto simp: phase_of_def input_disabled_def split: if_splits)
  next
    case (Submit u t)
    with f have "\<not> isLoading (ui r)"
      by (auto simp: submit_disabled_def input_disabled_def split: if_splits)
    with f Submit show ?thesis
      by (cases "trim (input (ui r)) = []")
         (auto simp: phase_of_def handleSubmit_sync_blank handleSubmit_sync_nonblank
            submit_disabled_def input_disabled_def)
  next
    case (Settle i out u t)
    with f have "inflight r \<noteq> []"
      by (auto split: if_splits)
    with idle have "isLoading (ui r)"
      by blast
    with f Settle show ?thesis
      by (auto simp: phase_of_def isLoading_resume split: if_splits)
  qed
  from flag idle step show ?thesis
    by blast
qed

theorem loading_state_machine_witness:
  "fires [Change ''Hello'', Submit ''u1'' ''t1''] (ChatWindow_start ''u0'' ''t0'') =
     Some \<lparr>ui = \<lparr>messages =
                 [\<lparr>id' = ''u0'', sender = Bot, text' = JSString ''Hi there! How can I help you?'',
                    timestamp = ''t0''\<rparr>,
                  \<lparr>id' = ''u1'', sender = User, text' = JSString ''Hello'', timestamp = ''t1''\<rparr>],
               input = [], isLoading = True\<rparr>,
           inflight = [[(''question'', JSString ''Hello'')]]\<rparr>
   \<and> fire (Settle 0 Rejected ''u2'' ''t2'')
       \<lparr>ui = \<lparr>messages =
                 [\<lparr>id' = ''u0'', sender = Bot, text' = JSString ''Hi there! How can I help you?'',
                    timestamp = ''t0''\<rparr>,
                  \<lparr>id' = ''u1'', sender = User, text' = JSString ''Hello'', timestamp = ''t1''\<rparr>],
               input = [], isLoading = True\<rparr>,
           inflight = [[(''question'', JSString ''Hello'')]]\<rparr> =
     Some \<lparr>ui = \<lparr>messages =
                 [\<lparr>id' = ''u0'', sender = Bot, text' = JSString ''Hi there! How can I help you?'',
                    timestamp = ''t0''\<rparr>,
                  \<lparr>id' = ''u1'', sender = User, text' = JSString ''Hello'', timestamp = ''t1''\<rparr>,
                  \<lparr>id' = ''u2'', sender = Bot,
                    text' = JSString ''Something went wrong. Please try again.'',
                    timestamp = ''t2''\<rparr>],
               input = [], isLoading = False\<rparr>,
           inflight = []\<rparr>
   \<and> phase_of \<lparr>ui = \<lparr>messages =
                 [\<lparr>id' = ''u0'', sender = Bot, text' = JSString ''Hi there! How can I help you?'',
                    timestamp = ''t0''\<rparr>,
                  \<lparr>id' = ''u1'', sender = User, text' = JSString ''Hello'', timestamp = ''t1''\<rparr>],
               input = [], isLoading = True\<rparr>,
           inflight = [[(''question'', JSString ''Hello'')]]\<rparr> = Sending
   \<and> phase_of \<lparr>ui = \<lparr>messages =
                 [\<lparr>id' = ''u0'', sender = Bot, text' = JSString ''Hi there! How can I help you?'',
                    timestamp = ''t0''\<rparr>,
                  \<lparr>id' = ''u1'', sender = User, text' = JSString ''Hello'', timestamp = ''t1''\<rparr>,
                  \<lparr>id' = ''u2'', sender = Bot,
                    text' = JSString ''Something went wrong. Please try again.'',
                    timestamp = ''t2''\<rparr>],
               input = [], isLoading = False\<rparr>,
           inflight = []\<rparr> = Idle"
proof -
  have a: "fires [Change ''Hello'', Submit ''u1'' ''t1''] (ChatWindow_start ''u0'' ''t0'') =
     Some \<lparr>ui = \<lparr>messages =
                 [\<lparr>id' = ''u0'', sender = Bot, text' = JSString ''Hi there! How can I help you?'',
                    timestamp = ''t0''\<rparr>,
                  \<lparr>id' = ''u1'', sender = User, text' = JSString ''Hello'', timestamp = ''t1''\<rparr>],
               input = [], isLoading = True\<rparr>,
           inflight = [[(''question'', JSString ''Hello'')]]\<rparr>"
    by (simp add: ChatWindow_start_def ChatWindow_init_def input_disabled_def submit_disabled_def
        handleSubmit_sync_def trim_def isWhiteSpace_def)
  have b: "fire (Settle 0 Rejected ''u2'' ''t2'')
       \<lparr>ui = \<lparr>messages =
                 [\<lparr>id' = ''u0'', sender = Bot, text' = JSString ''Hi there! How can I help you?'',
                    timestamp = ''t0''\<rparr>,
                  \<lparr>id' = ''u1'', sender = User, text' = JSString ''Hello'', timestamp = ''t1''\<rparr>],
               input = [], isLoading = True\<rparr>,
           inflight = [[(''question'', JSString ''Hello'')]]\<rparr> =
     Some \<lparr>ui = \<lparr>messages =
                 [\<lparr>id' = ''u0'', sender = Bot, text' = JSString ''Hi there! How can I help you?'',
                    timestamp = ''t0''\<rparr>,
                  \<lparr>id' = ''u1'', sender = User, text' = JSString ''Hello'', timestamp = ''t1''\<rparr>,
                  \<lparr>id' = ''u2'', sender = Bot,
                    text' = JSString ''Something went wrong. Please try again.'',
                    timestamp = ''t2''\<rparr>],
               input = [], isLoading = False\<rparr>,
           inflight = []\<rparr>"
    by (simp add: handleSubmit_resume_def)
  from loading_state_machine [OF a, of "Settle 0 Rejected ''u2'' ''t2''"] a b
  show ?thesis by simp
qed

text \<open>
  Claim C8. While the loading flag is true the submit button and the text input
  are disabled, so the user can neither submit nor type; hence in every state
  the mounted component can reach at most one call is in flight, and no submit
  can happen while one is.
\<close>

theorem no_second_submission_while_loading:
  "(isLoading (ui r) \<longrightarrow>
      submit_disabled (ui r) \<and> input_disabled (ui r)
      \<and> fire (Submit u t) r = None \<and> fire (Change v) r = None)
   \<and> (fires es (ChatWindow_start u0 t0) = Some r \<longrightarrow>
      length (inflight r) \<le> 1
      \<and> (inflight r \<noteq> [] \<longrightarrow> isLoading (ui r) \<and> fire (Submit u t) r = None))"
proof -
  have "loading_inv r" if "fires es (ChatWindow_start u0 t0) = Some r"
    using that by (rule loading_inv_fires [OF loading_inv_start])
  then show ?thesis
    by (auto simp: loading_inv_def submit_disabled_def input_disabled_def)
qed

theorem no_second_submission_while_loading_witness:
  "isLoading (ui \<lparr>ui = \<lparr>messages =
                 [\<lparr>id' = ''u0'', sender = Bot, text' = JSString ''Hi there! How can I help you?'',
                    timestamp = ''t0''\<rparr>,
                  \<lparr>id' = ''u1'', sender = User, text' = JSString ''Hello'', timestamp = ''t1''\<rparr>],
               input = [], isLoading = True\<rparr>,
           inflight = [[(''question'', JSString ''Hello'')]]\<rparr>)
   \<and> fires [Change ''Hello'', Submit ''u1'' ''t1''] (ChatWindow_start ''u0'' ''t0'') =
     Some \<lparr>ui = \<lparr>messages =
                 [\<lparr>id' = ''u0'', sender = Bot, text' = JSString ''Hi there! How can I help you?'',
                    timestamp = ''t0''\<rparr>,
                  \<lparr>id' = ''u1'', sender = User, text' = JSString ''Hello'', timestamp = ''t1''\<rparr>],
               input = [], isLoading = True\<rparr>,
           inflight = [[(''question'', JSString ''Hello'')]]\<rparr>
   \<and> fire (Submit ''u3'' ''t3'')
       \<lparr>ui = \<lparr>messages =
                 [\<lparr>id' = ''u0'', sender = Bot, text' = JSString ''Hi there! How can I help you?'',
                    timestamp = ''t0''\<rparr>,
                  \<lparr>id' = ''u1'', sender = User, text' = JSString ''Hello'', timestamp = ''t1''\<rparr>],
               input = [], isLoading = True\<rparr>,
           inflight = [[(''question'', JSString ''Hello'')]]\<rparr> = None"
proof -
  have a: "fires [Change ''Hello'', Submit ''u1'' ''t1''] (ChatWindow_start ''u0'' ''t0'') =
     Some \<lparr>ui = \<lparr>messages =
                 [\<lparr>id' = ''u0'', sender = Bot, text' = JSString ''Hi there! How can I help you?'',
                    timestamp = ''t0''\<rparr>,
                  \<lparr>id' = ''u1'', sender = User, text' = JSString ''Hello'', timestamp = ''t1''\<rparr>],
               input = [], isLoading = True\<rparr>,
           inflight = [[(''question'', JSString ''Hello'')]]\<rparr>"
    by (simp add: ChatWindow_start_def ChatWindow_init_def input_disabled_def submit_disabled_def
        handleSubmit_sync_def trim_def isWhiteSpace_def)
  from a no_second_submission_while_loading [of "\<lparr>ui = \<lparr>messages =
                 [\<lparr>id' = ''u0'', sender = Bot, text' = JSString ''Hi there! How can I help you?'',
                    timestamp = ''t0''\<rparr>,
                  \<lparr>id' = ''u1'', sender = User, text' = JSString ''Hello'', timestamp = ''t1''\<rparr>],
               input = [], isLoading = True\<rparr>,
           inflight = [[(''question'', JSString ''Hello'')]]\<rparr>" "''u3''" "''t3''" "''x''"
      "[Change ''Hello'', Submit ''u1'' ''t1'']" "''u0''" "''t0''"]
  show ?thesis by simp
qed

text \<open>
  Claim C9. Every update of the message list is an append: after the submit,
  the success handler and the error handler, of ChatWindow and of useChat, and
  after any sequence of events, the old list is a prefix of the new one, so
  every message created before is still there, at its index, unchanged.
\<close>

theorem messages_append_only:
  "prefix (messages s) (messages (fst (handleSubmit_sync u t s)))
   \<and> prefix (messages s) (messages (fst (handleSubmit_resume u t out s)))
   \<and> prefix (hook_messages h) (hook_messages (fst (send u t m h)))
   \<and> prefix (hook_messages h) (hook_messages (onSuccess u t data h))
   \<and> prefix (hook_messages h) (hook_messages (onError u t h))
   \<and> (fires es r = Some r' \<longrightarrow>
        prefix (messages (ui r)) (messages (ui r'))
        \<and> (\<forall>i < length (messages (ui r)). messages (ui r') ! i = messages (ui r) ! i))
   \<and> (hfires hs q = Some q' \<longrightarrow>
        prefix (hook_messages (hook q)) (hook_messages (hook q'))
        \<and> (\<forall>i < length (hook_messages (hook q)).
              hook_messages (hook q') ! i = hook_messages (hook q) ! i))"
proof -
  have 1: "prefix (messages s) (messages (fst (handleSubmit_sync u t s)))"
    by (cases "trim (input s) = []")
       (simp_all add: handleSubmit_sync_blank handleSubmit_sync_nonblank)
  have 2: "prefix (messages s) (messages (fst (handleSubmit_resume u t out s)))"
    by (cases out) (simp_all add: handleSubmit_resume_def)
  have 3: "prefix (hook_messages h) (hook_messages (fst (send u t m h)))"
    by (simp add: send_def mutate_def)
  have 4: "prefix (hook_messages h) (hook_messages (onSuccess u t data h))"
    by (simp add: onSuccess_def)
  have 5: "prefix (hook_messages h) (hook_messages (onError u t h))"
    by (simp add: onError_def)
  have 6: "prefix (messages (ui r)) (messages (ui r'))
        \<and> (\<forall>i < length (messages (ui r)). messages (ui r') ! i = messages (ui r) ! i)"
    if "fires es r = Some r'"
    using prefix_fires [OF that] by (simp add: prefix_nth)
  have 7: "prefix (hook_messages (hook q)) (hook_messages (hook q'))
        \<and> (\<forall>i < length (hook_messages (hook q)).
              hook_messages (hook q') ! i = hook_messages (hook q) ! i)"
    if "hfires hs q = Some q'"
    using prefix_hfires [OF that] by (simp add: prefix_nth)
  from 1 2 3 4 5 6 7 show ?thesis
    by blast
qed

theorem messages_append_only_witness:
  "fires [Change ''Hello'', Submit ''u1'' ''t1'', Settle 0 Rejected ''u2'' ''t2'']
      (ChatWindow_start ''u0'' ''t0'') =
     Some \<lparr>ui = \<lparr>messages =
                 [\<lparr>id' = ''u0'', sender = Bot, text' = JSString ''Hi there! How can I help you?'',
                    timestamp = ''t0''\<rparr>,
                  \<lparr>id' = ''u1'', sender = User, text' = JSString ''Hello'', timestamp = ''t1''\<rparr>,
                  \<lparr>id' = ''u2'', sender = Bot,
                    text' = JSString ''Something went wrong. Please try again.'',
                    timestamp = ''t2''\<rparr>],
               input = [], isLoading = False\<rparr>,
           inflight = []\<rparr>
   \<and> prefix (messages (ui (ChatWindow_start ''u0'' ''t0'')))
       [\<lparr>id' = ''u0'', sender = Bot, text' = JSString ''Hi there! How can I help you?'',
          timestamp = ''t0''\<rparr>,
        \<lparr>id' = ''u1'', sender = User, text' = JSString ''Hello'', timestamp = ''t1''\<rparr>,
        \<lparr>id' = ''u2'', sender = Bot,
          text' = JSString ''Something went wrong. Please try again.'',
          timestamp = ''t2''\<rparr>]
   \<and> hfires [HSend ''A'' ''u1'' ''t1'', HSend ''B'' ''u2'' ''t2'',
         HSettle 0 (Resolved [(''reply'', JSString ''Hi!'')]) ''u3'' ''t3'']
       \<lparr>hook = fst (send ''u0'' ''t0'' ''Z'' useChat_init),
         calls = [(0, [(''message'', JSString ''Z'')])], issued = 1\<rparr> =
     Some \<lparr>hook = \<lparr>hook_messages =
                 [\<lparr>id' = ''u0'', sender = User, text' = JSString ''Z'', timestamp = ''t0''\<rparr>,
                  \<lparr>id' = ''u1'', sender = User, text' = JSString ''A'', timestamp = ''t1''\<rparr>,
                  \<lparr>id' = ''u2'', sender = User, text' = JSString ''B'', timestamp = ''t2''\<rparr>,
                  \<lparr>id' = ''u3'', sender = Bot, text' = JSString ''Hi!'', timestamp = ''t3''\<rparr>],
               status = StatusPending\<rparr>,
           calls = [(1, [(''message'', JSString ''A'')]), (2, [(''message'', JSString ''B'')])], issued = 3\<rparr>
   \<and> prefix (hook_messages (fst (send ''u0'' ''t0'' ''Z'' useChat_init)))
       [\<lparr>id' = ''u0'', sender = User, text' = JSString ''Z'', timestamp = ''t0''\<rparr>,
        \<lparr>id' = ''u1'', sender = User, text' = JSString ''A'', timestamp = ''t1''\<rparr>,
        \<lparr>id' = ''u2'', sender = User, text' = JSString ''B'', timestamp = ''t2''\<rparr>,
        \<lparr>id' = ''u3'', sender = Bot, text' = JSString ''Hi!'', timestamp = ''t3''\<rparr>]"
proof -
  have a: "fires [Change ''Hello'', Submit ''u1'' ''t1'', Settle 0 Rejected ''u2'' ''t2'']
      (ChatWindow_start ''u0'' ''t0'') =
     Some \<lparr>ui = \<lparr>messages =
                 [\<lparr>id' = ''u0'', sender = Bot, text' = JSString ''Hi there! How can I help you?'',
                    timestamp = ''t0''\<rparr>,
                  \<lparr>id' = ''u1'', sender = User, text' = JSString ''Hello'', timestamp = ''t1''\<rparr>,
                  \<lparr>id' = ''u2'', sender = Bot,
                    text' = JSString ''Something went wrong. Please try again.'',
                    timestamp = ''t2''\<rparr>],
               input = [], isLoading = False\<rparr>,
           inflight = []\<rparr>"
    by (simp add: ChatWindow_start_def ChatWindow_init_def input_disabled_def submit_disabled_def
        handleSubmit_sync_def handleSubmit_resume_def trim_def isWhiteSpace_def)
  have b: "hfires [HSend ''A'' ''u1'' ''t1'', HSend ''B'' ''u2'' ''t2'',
         HSettle 0 (Resolved [(''reply'', JSString ''Hi!'')]) ''u3'' ''t3'']
       \<lparr>hook = fst (send ''u0'' ''t0'' ''Z'' useChat_init),
         calls = [(0, [(''message'', JSString ''Z'')])], issued = 1\<rparr> =
     Some \<lparr>hook = \<lparr>hook_messages =
                 [\<lparr>id' = ''u0'', sender = User, text' = JSString ''Z'', timestamp = ''t0''\<rparr>,
                  \<lparr>id' = ''u1'', sender = User, text' = JSString ''A'', timestamp = ''t1''\<rparr>,
                  \<lparr>id' = ''u2'', sender = User, text' = JSString ''B'', timestamp = ''t2''\<rparr>,
                  \<lparr>id' = ''u3'', sender = Bot, text' = JSString ''Hi!'', timestamp = ''t3''\<rparr>],
               status = StatusPending\<rparr>,
           calls = [(1, [(''message'', JSString ''A'')]), (2, [(''message'', JSString ''B'')])], issued = 3\<rparr>"
    by (simp add: send_def mutate_def useChat_init_def mutation_settled_def onSuccess_def
        get_prop_def)
  from a b
    messages_append_only [of
      "ChatWindow_init ''u0'' ''t0''" "''u1''" "''t1''" Rejected
      useChat_init "''A''" "[]"
      "[Change ''Hello'', Submit ''u1'' ''t1'', Settle 0 Rejected ''u2'' ''t2'']"
      "ChatWindow_start ''u0'' ''t0''"
      "\<lparr>ui = \<lparr>messages =
                 [\<lparr>id' = ''u0'', sender = Bot, text' = JSString ''Hi there! How can I help you?'',
                    timestamp = ''t0''\<rparr>,
                  \<lparr>id' = ''u1'', sender = User, text' = JSString ''Hello'', timestamp = ''t1''\<rparr>,
                  \<lparr>id' = ''u2'', sender = Bot,
                    text' = JSString ''Something went wrong. Please try again.'',
                    timestamp = ''t2''\<rparr>],
               input = [], isLoading = False\<rparr>,
           inflight = []\<rparr>"
      "[HSend ''A'' ''u1'' ''t1'', HSend ''B'' ''u2'' ''t2'',
         HSettle 0 (Resolved [(''reply'', JSString ''Hi!'')]) ''u3'' ''t3'']"
      "\<lparr>hook = fst (send ''u0'' ''t0'' ''Z'' useChat_init),
         calls = [(0, [(''message'', JSString ''Z'')])], issued = 1\<rparr>"
      "\<lparr>hook = \<lparr>hook_messages =
                 [\<lparr>id' = ''u0'', sender = User, text' = JSString ''Z'', timestamp = ''t0''\<rparr>,
                  \<lparr>id' = ''u1'', sender = User, text' = JSString ''A'', timestamp = ''t1''\<rparr>,
                  \<lparr>id' = ''u2'', sender = User, text' = JSString ''B'', timestamp = ''t2''\<rparr>,
                  \<lparr>id' = ''u3'', sender = Bot, text' = JSString ''Hi!'', timestamp = ''t3''\<rparr>],
               status = StatusPending\<rparr>,
           calls = [(1, [(''message'', JSString ''A'')]), (2, [(''message'', JSString ''B'')])], issued = 3\<rparr>"]
  show ?thesis by simp
qed

end
